theory Spec2Isabelle
  imports Main "HOL-Library.Word"
begin

section \<open>The updater's install builtins (updater/install.c)\<close>

text \<open>
  The builtins of \<^verbatim>\<open>install.c\<close> are embedded as state-passing functions. The state
  records what a caller of a builtin can observe: the external system the drivers act
  on, the single pending error message, the strings handed to \<^verbatim>\<open>free\<close>, and the
  sequence of evaluations, driver calls and diagnostics. A C string is a pair of its
  address and its text, so that ownership (which address is returned, which is
  released) can be stated. Undefined behaviour of the C program is a value of type
  \<open>fault\<close>. Allocation (\<^verbatim>\<open>malloc\<close>, \<^verbatim>\<open>strdup\<close>) is assumed to succeed.
\<close>

subsection \<open>Data model\<close>

text \<open>
  Addresses: the string obtained by evaluating the argument node at a given position
  of the call, the array of \<^verbatim>\<open>char*\<close> a variadic builtin works on, and the string made
  by \<^verbatim>\<open>strdup\<close> (each builtin calls \<^verbatim>\<open>strdup\<close> at most once).
\<close>

datatype ptr = ArgVal nat | ArgArray | Dup

type_synonym cstr = "ptr \<times> string"

text \<open>An argument node, given by what the evaluator yields for it (\<open>None\<close>: it fails).\<close>

type_synonym expr = "string option"

datatype ms_flag = MS_NOATIME | MS_NODEV | MS_NODIRATIME

datatype mz_flag = MZ_EXTRACT_FILES_ONLY

text \<open>
  The calls into the storage drivers, the archive service and the C library's file
  system interface, with their arguments. Handles (partitions, write contexts,
  volumes) are integers, 0 being the null pointer; user ids and modes are C ints.
\<close>

datatype call =
    Mkdir string nat
  | MtdScanPartitions
  | MtdFindPartitionByName string
  | MtdMountPartition int string string int
  | Mount string string string "ms_flag list" string
  | ScanMountedVolumes
  | FindMountedVolumeByMountPoint string
  | UnmountMountedVolume int
  | MtdWritePartition int
  | MtdEraseBlocks int int
  | MtdWriteClose int
  | DirUnlinkHierarchy string
  | Unlink string
  | MzExtractRecursive string string mz_flag "int \<times> int"
  | Symlink string string
  | DirSetHierarchyPermissions string "32 word" "32 word" "32 word" "32 word"
  | Chown string "32 word" "32 word"
  | Chmod string "32 word"

datatype event =
    EvalArg nat
  | Drv call int
  | Stderr string
  | CmdPipe string

datatype fault = DoubleFree ptr | WildRead | SignedOverflow | BufferOverflow

text \<open>
  What the builtins consume from outside this file: the drivers (a call acts on the
  external system and returns an int), the text of \<^verbatim>\<open>strerror(errno)\<close>, the C library's
  \<^verbatim>\<open>strtoul\<close> with base 0 (the value and the unparsed rest, \<^verbatim>\<open>end\<close>), the text that
  \<^verbatim>\<open>"progress %f %d\n"\<close> renders from \<^verbatim>\<open>strtod\<close> and \<^verbatim>\<open>strtol\<close> of two strings, and the
  indeterminate int that \<^verbatim>\<open>vsnprintf\<close> reads for a conversion with no argument.
\<close>

record 'sys env =
  drv :: "call \<Rightarrow> 'sys \<Rightarrow> int \<times> 'sys"
  strerror_errno :: "'sys \<Rightarrow> string"
  strtoul :: "string \<Rightarrow> nat \<times> string"
  progress_line :: "string \<Rightarrow> string \<Rightarrow> string"
  va_junk :: int

record 'sys world =
  sys :: "'sys"
  errmsg :: "string option"
  freed :: "ptr list"
  trace :: "event list"

definition fresh :: "'sys \<Rightarrow> 'sys world" where
  "fresh s = \<lparr>sys = s, errmsg = None, freed = [], trace = []\<rparr>"

subsection \<open>Formatting\<close>

definition digits10 :: string where
  "digits10 = ''0123456789''"

fun dec_nat :: "nat \<Rightarrow> string" where
  "dec_nat n = (if n < 10 then [digits10 ! n] else dec_nat (n div 10) @ [digits10 ! (n mod 10)])"

declare dec_nat.simps [simp del]

text \<open>The conversion \<^verbatim>\<open>%d\<close>.\<close>

definition dec :: "int \<Rightarrow> string" where
  "dec i = (if i < 0 then CHR ''-'' # dec_nat (nat (- i)) else dec_nat (nat i))"

definition dquote :: string where
  "dquote = [CHR 0x22]"

definition newline :: string where
  "newline = [CHR 0x0A]"

text \<open>The octal literal \<^verbatim>\<open>0755\<close>.\<close>

definition mode_0755 :: nat where
  "mode_0755 = 7 * 64 + 5 * 8 + 5"

subsection \<open>Primitives\<close>

definition thenF :: "fault + 'a \<Rightarrow> ('a \<Rightarrow> fault + 'b) \<Rightarrow> fault + 'b" where
  "thenF m k = (case m of Inl f \<Rightarrow> Inl f | Inr a \<Rightarrow> k a)"

text \<open>\<^verbatim>\<open>free\<close>: releasing an address a second time is undefined behaviour.\<close>

definition free :: "ptr \<Rightarrow> 'sys world \<Rightarrow> fault + 'sys world" where
  "free p w = (if p \<in> set (freed w) then Inl (DoubleFree p)
               else Inr (w\<lparr>freed := freed w @ [p]\<rparr>))"

fun free_all :: "ptr list \<Rightarrow> 'sys world \<Rightarrow> fault + 'sys world" where
  "free_all [] w = Inr w"
| "free_all (p # ps) w = thenF (free p w) (free_all ps)"

definition strdup :: "string \<Rightarrow> cstr" where
  "strdup s = (Dup, s)"

definition fprintf_stderr :: "string \<Rightarrow> 'sys world \<Rightarrow> 'sys world" where
  "fprintf_stderr text w = w\<lparr>trace := trace w @ [Stderr text]\<rparr>"

definition syscall :: "'sys env \<Rightarrow> call \<Rightarrow> 'sys world \<Rightarrow> int \<times> 'sys world" where
  "syscall env c w =
     (case drv env c (sys w) of
        (r, s') \<Rightarrow> (r, w\<lparr>sys := s', trace := trace w @ [Drv c r]\<rparr>))"

text \<open>
  Modelled from the spec: \<^verbatim>\<open>SetError\<close> of the evaluator (edify), which is not among the
  sources: it stores the message as the single pending error, overwriting any prior one.
\<close>

definition SetError :: "string \<Rightarrow> 'sys world \<Rightarrow> 'sys world" where
  "SetError msg w = w\<lparr>errmsg := Some msg\<rparr>"

text \<open>
  \<^verbatim>\<open>ErrorAbort\<close> formats into a buffer of 4096 bytes (\<^verbatim>\<open>vsnprintf\<close> keeps at most 4095
  characters) and stores the buffer as the error. It always returns the null pointer,
  so the model returns the state only and its callers return \<open>None\<close>.
\<close>

definition ErrorAbort :: "string \<Rightarrow> 'sys world \<Rightarrow> 'sys world" where
  "ErrorAbort text w = SetError (take 4095 text) w"

text \<open>
  Modelled from the spec: \<^verbatim>\<open>Evaluate\<close> of the evaluator (edify), which is not among the
  sources: it yields an owned text value for the node, or fails. The node is named by
  its position \<open>i\<close> in the call's argument vector.
\<close>

definition Evaluate :: "nat \<Rightarrow> expr \<Rightarrow> 'sys world \<Rightarrow> cstr option \<times> 'sys world" where
  "Evaluate i e w = (map_option (Pair (ArgVal i)) e, w\<lparr>trace := trace w @ [EvalArg i]\<rparr>)"

text \<open>
  Modelled from the spec: \<^verbatim>\<open>ReadArgs\<close> and \<^verbatim>\<open>ReadVarArgs\<close> of the evaluator (edify), which
  are not among the sources: the nodes are evaluated left to right; on the first
  failure all previously evaluated values are released and the failure is reported.
  \<open>eval_args i es acc\<close> evaluates the nodes \<open>es\<close>, which stand at positions \<open>i\<close>, \<open>i + 1\<close>, ...
  On success \<^verbatim>\<open>ReadArgs(cookie, argv, n, ...)\<close> has stored \<open>n\<close> strings; the builtins read
  them as \<open>vs ! 0\<close>, \<open>vs ! 1\<close>, ... after their check that \<open>argc\<close> is \<open>n\<close>. Evaluating a node
  is taken to leave the external system and the pending error as they are.
\<close>

fun eval_args :: "nat \<Rightarrow> expr list \<Rightarrow> cstr list \<Rightarrow> 'sys world \<Rightarrow> fault + (cstr list option \<times> 'sys world)" where
  "eval_args i [] acc w = Inr (Some acc, w)"
| "eval_args i (e # es) acc w =
     (case Evaluate i e w of
        (None, w1) \<Rightarrow> thenF (free_all (map fst acc) w1) (\<lambda>w2. Inr (None, w2))
      | (Some v, w1) \<Rightarrow> eval_args (Suc i) es (acc @ [v]) w1)"

definition ReadArgs :: "expr list \<Rightarrow> nat \<Rightarrow> 'sys world \<Rightarrow> fault + (cstr list option \<times> 'sys world)" where
  "ReadArgs argv n w = eval_args 0 (take n argv) [] w"

text \<open>\<open>ReadVarArgs base argc argv\<close>: \<open>argv\<close> starts at position \<open>base\<close> of the call's vector.\<close>

definition ReadVarArgs :: "nat \<Rightarrow> nat \<Rightarrow> expr list \<Rightarrow> 'sys world \<Rightarrow> fault + (cstr list option \<times> 'sys world)" where
  "ReadVarArgs base argc argv w = eval_args base (take argc argv) [] w"

subsection \<open>mount, unmount, format\<close>

type_synonym 'sys builtin =
  "'sys env \<Rightarrow> string \<Rightarrow> expr list \<Rightarrow> 'sys world \<Rightarrow> fault + (cstr option \<times> 'sys world)"

text \<open>The code after the label \<^verbatim>\<open>done\<close> of \<^verbatim>\<open>MountFn\<close>.\<close>

definition mount_done :: "cstr \<Rightarrow> cstr \<Rightarrow> cstr \<Rightarrow> cstr option \<Rightarrow> 'sys world \<Rightarrow> fault + (cstr option \<times> 'sys world)" where
  "mount_done type location mount_point result w =
     thenF (free (fst type) w) (\<lambda>w1.
     thenF (free (fst location) w1) (\<lambda>w2.
     thenF (if map_option fst result \<noteq> Some (fst mount_point) then free (fst mount_point) w2 else Inr w2) (\<lambda>w3.
     Inr (result, w3))))"

definition mount_body :: "'sys env \<Rightarrow> string \<Rightarrow> cstr \<Rightarrow> cstr \<Rightarrow> cstr \<Rightarrow> 'sys world \<Rightarrow> fault + (cstr option \<times> 'sys world)" where
  "mount_body env name type location mount_point w =
     (if length (snd type) = 0 then
        mount_done type location mount_point None
          (ErrorAbort (''type argument to '' @ name @ ''() can't be empty'') w)
      else if length (snd location) = 0 then
        mount_done type location mount_point None
          (ErrorAbort (''location argument to '' @ name @ ''() can't be empty'') w)
      else if length (snd mount_point) = 0 then
        mount_done type location mount_point None
          (ErrorAbort (''mount_point argument to '' @ name @ ''() can't be empty'') w)
      else
        (case syscall env (Mkdir (snd mount_point) mode_0755) w of (_, w1) \<Rightarrow>
         if snd type = ''MTD'' then
           (case syscall env MtdScanPartitions w1 of (_, w2) \<Rightarrow>
            case syscall env (MtdFindPartitionByName (snd location)) w2 of (mtd, w3) \<Rightarrow>
            if mtd = 0 then
              mount_done type location mount_point (Some (strdup []))
                (fprintf_stderr (name @ '': no mtd partition named '' @ dquote @ snd location @ dquote) w3)
            else
              (case syscall env (MtdMountPartition mtd (snd mount_point) ''yaffs2'' 0) w3 of (r, w4) \<Rightarrow>
               if r \<noteq> 0 then
                 mount_done type location mount_point (Some (strdup []))
                   (fprintf_stderr (''mtd mount of '' @ snd location @ '' failed: ''
                                    @ strerror_errno env (sys w4) @ newline) w4)
               else mount_done type location mount_point (Some mount_point) w4))
         else
           (case syscall env (Mount (snd location) (snd mount_point) (snd type)
                               [MS_NOATIME, MS_NODEV, MS_NODIRATIME] '''') w1 of (r, w2) \<Rightarrow>
            if r < 0 then mount_done type location mount_point (Some (strdup [])) w2
            else mount_done type location mount_point (Some mount_point) w2)))"

definition MountFn :: "'sys builtin" where
  "MountFn env name argv w =
     (if int (length argv) \<noteq> 3 then
        Inr (None, ErrorAbort (name @ ''() expects 3 args, got '' @ dec (int (length argv))) w)
      else
        thenF (ReadArgs argv 3 w) (\<lambda>(args, w1).
          case args of
            None \<Rightarrow> Inr (None, w1)
          | Some vs \<Rightarrow> mount_body env name (vs ! 0) (vs ! 1) (vs ! 2) w1))"

text \<open>The code after the label \<^verbatim>\<open>done\<close> of \<^verbatim>\<open>UnmountFn\<close>.\<close>

definition unmount_done :: "cstr \<Rightarrow> cstr option \<Rightarrow> 'sys world \<Rightarrow> fault + (cstr option \<times> 'sys world)" where
  "unmount_done mount_point result w =
     thenF (if map_option fst result \<noteq> Some (fst mount_point) then free (fst mount_point) w else Inr w) (\<lambda>w1.
     Inr (result, w1))"

definition unmount_body :: "'sys env \<Rightarrow> string \<Rightarrow> cstr \<Rightarrow> 'sys world \<Rightarrow> fault + (cstr option \<times> 'sys world)" where
  "unmount_body env name mount_point w =
     (if length (snd mount_point) = 0 then
        unmount_done mount_point None
          (ErrorAbort ''mount_point argument to unmount() can't be empty'' w)
      else
        (case syscall env ScanMountedVolumes w of (_, w1) \<Rightarrow>
         case syscall env (FindMountedVolumeByMountPoint (snd mount_point)) w1 of (vol, w2) \<Rightarrow>
         if vol = 0 then
           unmount_done mount_point (Some (strdup []))
             (fprintf_stderr (''unmount of '' @ snd mount_point @ '' failed; no such volume'' @ newline) w2)
         else
           (case syscall env (UnmountMountedVolume vol) w2 of (_, w3) \<Rightarrow>
            unmount_done mount_point (Some mount_point) w3)))"

definition UnmountFn :: "'sys builtin" where
  "UnmountFn env name argv w =
     (if int (length argv) \<noteq> 1 then
        Inr (None, ErrorAbort (name @ ''() expects 1 arg, got '' @ dec (int (length argv))) w)
      else
        thenF (ReadArgs argv 1 w) (\<lambda>(args, w1).
          case args of
            None \<Rightarrow> Inr (None, w1)
          | Some vs \<Rightarrow> unmount_body env name (vs ! 0) w1))"

text \<open>The code after the label \<^verbatim>\<open>done\<close> of \<^verbatim>\<open>FormatFn\<close>.\<close>

definition format_done :: "cstr \<Rightarrow> cstr \<Rightarrow> cstr option \<Rightarrow> 'sys world \<Rightarrow> fault + (cstr option \<times> 'sys world)" where
  "format_done type location result w =
     thenF (free (fst type) w) (\<lambda>w1.
     thenF (if map_option fst result \<noteq> Some (fst location) then free (fst location) w1 else Inr w1) (\<lambda>w2.
     Inr (result, w2)))"

definition format_body :: "'sys env \<Rightarrow> string \<Rightarrow> cstr \<Rightarrow> cstr \<Rightarrow> 'sys world \<Rightarrow> fault + (cstr option \<times> 'sys world)" where
  "format_body env name type location w =
     (if length (snd type) = 0 then
        format_done type location None
          (ErrorAbort (''type argument to '' @ name @ ''() can't be empty'') w)
      else if length (snd location) = 0 then
        format_done type location None
          (ErrorAbort (''location argument to '' @ name @ ''() can't be empty'') w)
      else if snd type = ''MTD'' then
        (case syscall env MtdScanPartitions w of (_, w1) \<Rightarrow>
         case syscall env (MtdFindPartitionByName (snd location)) w1 of (mtd, w2) \<Rightarrow>
         if mtd = 0 then
           format_done type location (Some (strdup []))
             (fprintf_stderr (name @ '': no mtd partition named '' @ dquote @ snd location @ dquote) w2)
         else
           (case syscall env (MtdWritePartition mtd) w2 of (ctx, w3) \<Rightarrow>
            if ctx = 0 then
              format_done type location (Some (strdup []))
                (fprintf_stderr (name @ '': can't write '' @ dquote @ snd location @ dquote) w3)
            else
              (case syscall env (MtdEraseBlocks ctx (- 1)) w3 of (e, w4) \<Rightarrow>
               if e = - 1 then
                 (case syscall env (MtdWriteClose ctx) w4 of (_, w5) \<Rightarrow>
                  format_done type location (Some (strdup []))
                    (fprintf_stderr (name @ '': failed to erase '' @ dquote @ snd location @ dquote) w5))
               else
                 (case syscall env (MtdWriteClose ctx) w4 of (c, w5) \<Rightarrow>
                  if c \<noteq> 0 then
                    format_done type location (Some (strdup []))
                      (fprintf_stderr (name @ '': failed to close '' @ dquote @ snd location @ dquote) w5)
                  else format_done type location (Some location) w5))))
      else
        format_done type location None
          (fprintf_stderr (name @ '': unsupported type '' @ dquote @ snd type @ dquote) w))"

definition FormatFn :: "'sys builtin" where
  "FormatFn env name argv w =
     (if int (length argv) \<noteq> 2 then
        Inr (None, ErrorAbort (name @ ''() expects 2 args, got '' @ dec (int (length argv))) w)
      else
        thenF (ReadArgs argv 2 w) (\<lambda>(args, w1).
          case args of
            None \<Rightarrow> Inr (None, w1)
          | Some vs \<Rightarrow> format_body env name (vs ! 0) (vs ! 1) w1))"

subsection \<open>delete, delete_recursive\<close>

definition INT_MAX :: int where
  "INT_MAX = 2147483647"

text \<open>
  The cleanup loop of \<^verbatim>\<open>DeleteFn\<close>, \<^verbatim>\<open>for (j = 0; j < i; ++i) free(paths[j]);\<close>, as it
  is written: the loop increments \<open>i\<close>. \<open>paths\<close> holds the strings evaluated so far; a
  read beyond them is a read of an unset slot, and \<^verbatim>\<open>++i\<close> at \<^verbatim>\<open>INT_MAX\<close> overflows.
\<close>

function delete_cleanup :: "cstr list \<Rightarrow> int \<Rightarrow> int \<Rightarrow> 'sys world \<Rightarrow> fault + 'sys world" where
  "delete_cleanup paths j i w =
     (if j < i then
        (if j < 0 \<or> length paths \<le> nat j then Inl WildRead
         else case free (fst (paths ! nat j)) w of
                Inl f \<Rightarrow> Inl f
              | Inr w1 \<Rightarrow> if INT_MAX \<le> i then Inl SignedOverflow
                          else delete_cleanup paths j (i + 1) w1)
      else Inr w)"
  by pat_completeness auto
termination
  by (relation "measure (\<lambda>(paths, j, i, w). nat (INT_MAX - i))") auto

declare delete_cleanup.simps [simp del]

text \<open>The first loop of \<^verbatim>\<open>DeleteFn\<close>; \<open>paths\<close> holds the \<open>i\<close> strings evaluated so far.\<close>

fun delete_eval :: "nat \<Rightarrow> expr list \<Rightarrow> cstr list \<Rightarrow> 'sys world \<Rightarrow> fault + (cstr list option \<times> 'sys world)" where
  "delete_eval i [] paths w = Inr (Some paths, w)"
| "delete_eval i (e # es) paths w =
     (case Evaluate i e w of
        (None, w1) \<Rightarrow>
          thenF (delete_cleanup paths 0 (int i) w1) (\<lambda>w2.
          thenF (free ArgArray w2) (\<lambda>w3.
          Inr (None, w3)))
      | (Some p, w1) \<Rightarrow> delete_eval (Suc i) es (paths @ [p]) w1)"

text \<open>The second loop of \<^verbatim>\<open>DeleteFn\<close>.\<close>

fun delete_paths :: "'sys env \<Rightarrow> bool \<Rightarrow> cstr list \<Rightarrow> int \<Rightarrow> 'sys world \<Rightarrow> fault + (int \<times> 'sys world)" where
  "delete_paths env recursive [] success w = Inr (success, w)"
| "delete_paths env recursive (p # ps) success w =
     (case syscall env (if recursive then DirUnlinkHierarchy (snd p) else Unlink (snd p)) w of (r, w1) \<Rightarrow>
      thenF (free (fst p) w1) (\<lambda>w2.
      delete_paths env recursive ps (if r = 0 then success + 1 else success) w2))"

text \<open>\<^verbatim>\<open>sprintf\<close> into \<^verbatim>\<open>char buffer[10]\<close>: the text and its terminator must fit.\<close>

definition sprintf_buffer10 :: "string \<Rightarrow> fault + string" where
  "sprintf_buffer10 text = (if 10 < length text + 1 then Inl BufferOverflow else Inr text)"

definition DeleteFn :: "'sys builtin" where
  "DeleteFn env name argv w =
     thenF (delete_eval 0 argv [] w) (\<lambda>(args, w1).
       case args of
         None \<Rightarrow> Inr (None, w1)
       | Some paths \<Rightarrow>
           thenF (delete_paths env (name = ''delete_recursive'') paths 0 w1) (\<lambda>(success, w2).
           thenF (free ArgArray w2) (\<lambda>w3.
           thenF (sprintf_buffer10 (dec success)) (\<lambda>buffer.
           Inr (Some (strdup buffer), w3)))))"

subsection \<open>show_progress, package_extract, symlink\<close>

definition ShowProgressFn :: "'sys builtin" where
  "ShowProgressFn env name argv w =
     (if int (length argv) \<noteq> 2 then
        Inr (None, ErrorAbort (name @ ''() expects 2 args, got '' @ dec (int (length argv))) w)
      else
        thenF (ReadArgs argv 2 w) (\<lambda>(args, w1).
          case args of
            None \<Rightarrow> Inr (None, w1)
          | Some vs \<Rightarrow>
              (let frac_str = vs ! 0; sec_str = vs ! 1;
                   w2 = w1\<lparr>trace := trace w1 @ [CmdPipe (progress_line env (snd frac_str) (snd sec_str))]\<rparr>
               in thenF (free (fst frac_str) w2) (\<lambda>w3.
                  thenF (free (fst sec_str) w3) (\<lambda>w4.
                  Inr (Some (strdup []), w4))))))"

text \<open>The \<^verbatim>\<open>struct utimbuf\<close> of \<^verbatim>\<open>PackageExtractFn\<close>: access and modification time.\<close>

definition timestamp :: "int \<times> int" where
  "timestamp = (1217592000, 1217592000)"

definition PackageExtractFn :: "'sys builtin" where
  "PackageExtractFn env name argv w =
     (if int (length argv) \<noteq> 2 then
        Inr (None, ErrorAbort (name @ ''() expects 2 args, got '' @ dec (int (length argv))) w)
      else
        thenF (ReadArgs argv 2 w) (\<lambda>(args, w1).
          case args of
            None \<Rightarrow> Inr (None, w1)
          | Some vs \<Rightarrow>
              (let zip_path = vs ! 0; dest_path = vs ! 1 in
               case syscall env (MzExtractRecursive (snd zip_path) (snd dest_path)
                                   MZ_EXTRACT_FILES_ONLY timestamp) w1 of (success, w2) \<Rightarrow>
               thenF (free (fst zip_path) w2) (\<lambda>w3.
               thenF (free (fst dest_path) w3) (\<lambda>w4.
               Inr (Some (strdup (if success \<noteq> 0 then ''t'' else [])), w4))))))"

text \<open>The loop of \<^verbatim>\<open>SymlinkFn\<close>.\<close>

fun symlink_loop :: "'sys env \<Rightarrow> cstr \<Rightarrow> cstr list \<Rightarrow> 'sys world \<Rightarrow> fault + 'sys world" where
  "symlink_loop env target [] w = Inr w"
| "symlink_loop env target (s # ss) w =
     (case syscall env (Symlink (snd target) (snd s)) w of (_, w1) \<Rightarrow>
      thenF (free (fst s) w1) (symlink_loop env target ss))"

definition SymlinkFn :: "'sys builtin" where
  "SymlinkFn env name argv w =
     (if int (length argv) = 0 then
        Inr (None, ErrorAbort (name @ ''() expects 1+ args, got '' @ dec (int (length argv))) w)
      else
        (case Evaluate 0 (argv ! 0) w of
           (None, w1) \<Rightarrow> Inr (None, w1)
         | (Some target, w1) \<Rightarrow>
             thenF (ReadVarArgs 1 (length argv - 1) (drop 1 argv) w1) (\<lambda>(r, w2).
               case r of
                 None \<Rightarrow> thenF (free (fst target) w2) (\<lambda>w3. Inr (None, w3))
               | Some srcs \<Rightarrow>
                   thenF (symlink_loop env target srcs w2) (\<lambda>w3.
                   thenF (free ArgArray w3) (\<lambda>w4.
                   Inr (Some (strdup []), w4))))))"

subsection \<open>set_perm, set_perm_recursive\<close>

text \<open>The test \<^verbatim>\<open>*end != '\0' || s[0] == 0\<close>, with the short circuit of \<^verbatim>\<open>||\<close>.\<close>

definition not_a_number :: "string \<Rightarrow> string \<Rightarrow> bool" where
  "not_a_number endp s = (if endp \<noteq> [] then True else s = [])"

text \<open>The conversion of the \<^verbatim>\<open>unsigned long\<close> that \<^verbatim>\<open>strtoul\<close> returns to a C int.\<close>

definition to_int :: "nat \<Rightarrow> 32 word" where
  "to_int n = word_of_nat n"

fun setperm_loop_recursive :: "'sys env \<Rightarrow> 32 word \<Rightarrow> 32 word \<Rightarrow> 32 word \<Rightarrow> 32 word \<Rightarrow> cstr list \<Rightarrow> 'sys world \<Rightarrow> 'sys world" where
  "setperm_loop_recursive env uid gid dir_mode file_mode [] w = w"
| "setperm_loop_recursive env uid gid dir_mode file_mode (a # as) w =
     (case syscall env (DirSetHierarchyPermissions (snd a) uid gid dir_mode file_mode) w of (_, w1) \<Rightarrow>
      setperm_loop_recursive env uid gid dir_mode file_mode as w1)"

fun setperm_loop :: "'sys env \<Rightarrow> 32 word \<Rightarrow> 32 word \<Rightarrow> 32 word \<Rightarrow> cstr list \<Rightarrow> 'sys world \<Rightarrow> 'sys world" where
  "setperm_loop env uid gid mode [] w = w"
| "setperm_loop env uid gid mode (a # as) w =
     (case syscall env (Chown (snd a) uid gid) w of (_, w1) \<Rightarrow>
      case syscall env (Chmod (snd a) mode) w1 of (_, w2) \<Rightarrow>
      setperm_loop env uid gid mode as w2)"

text \<open>The code after the label \<^verbatim>\<open>done\<close> of \<^verbatim>\<open>SetPermFn\<close>.\<close>

definition setperm_done :: "cstr list \<Rightarrow> cstr option \<Rightarrow> 'sys world \<Rightarrow> fault + (cstr option \<times> 'sys world)" where
  "setperm_done args result w =
     thenF (free_all (map fst args) w) (\<lambda>w1.
     thenF (free ArgArray w1) (\<lambda>w2.
     Inr (result, w2)))"

text \<open>
  The two loops over the targets start at \<^verbatim>\<open>i = 4\<close> in both variants, as the source has
  them: \<open>drop 4 args\<close>.
\<close>

definition setperm_body :: "'sys env \<Rightarrow> string \<Rightarrow> bool \<Rightarrow> cstr list \<Rightarrow> 'sys world \<Rightarrow> fault + (cstr option \<times> 'sys world)" where
  "setperm_body env name recursive args w =
     (case strtoul env (snd (args ! 0)) of (uid, endp) \<Rightarrow>
      if not_a_number endp (snd (args ! 0)) then
        setperm_done args None
          (ErrorAbort (name @ '': '' @ dquote @ snd (args ! 0) @ dquote @ '' not a valid uid'') w)
      else
        (case strtoul env (snd (args ! 1)) of (gid, endp) \<Rightarrow>
         if not_a_number endp (snd (args ! 1)) then
           setperm_done args None
             (ErrorAbort (name @ '': '' @ dquote @ snd (args ! 1) @ dquote @ '' not a valid gid'') w)
         else if recursive then
           (case strtoul env (snd (args ! 2)) of (dir_mode, endp) \<Rightarrow>
            if not_a_number endp (snd (args ! 2)) then
              setperm_done args None
                (ErrorAbort (name @ '': '' @ dquote @ snd (args ! 2) @ dquote @ '' not a valid dirmode'') w)
            else
              (case strtoul env (snd (args ! 3)) of (file_mode, endp) \<Rightarrow>
               if not_a_number endp (snd (args ! 3)) then
                 setperm_done args None
                   (ErrorAbort (name @ '': '' @ dquote @ snd (args ! 3) @ dquote @ '' not a valid filemode'') w)
               else
                 setperm_done args (Some (strdup []))
                   (setperm_loop_recursive env (to_int uid) (to_int gid) (to_int dir_mode)
                      (to_int file_mode) (drop 4 args) w)))
         else
           (case strtoul env (snd (args ! 2)) of (mode, endp) \<Rightarrow>
            if not_a_number endp (snd (args ! 2)) then
              setperm_done args None
                (ErrorAbort (name @ '': '' @ dquote @ snd (args ! 2) @ dquote @ '' not a valid mode'') w)
            else
              setperm_done args (Some (strdup []))
                (setperm_loop env (to_int uid) (to_int gid) (to_int mode) (drop 4 args) w))))"

text \<open>
  The arity message is \<^verbatim>\<open>"%s() expects %d+ args, got %d"\<close> with the arguments
  \<^verbatim>\<open>name, argc\<close>: the first \<^verbatim>\<open>%d\<close> prints \<^verbatim>\<open>argc\<close> and the second has no argument.
\<close>

definition SetPermFn :: "'sys builtin" where
  "SetPermFn env name argv w =
     (let recursive = (name = ''set_perm_recursive'');
          min_args = 4 + (if recursive then 1 else 0);
          argc = int (length argv)
      in if argc < min_args then
           Inr (None, ErrorAbort (name @ ''() expects '' @ dec argc @ ''+ args, got ''
                                  @ dec (va_junk env)) w)
         else
           thenF (ReadVarArgs 0 (length argv) argv w) (\<lambda>(r, w1).
             case r of
               None \<Rightarrow> Inr (None, w1)
             | Some args \<Rightarrow> setperm_body env name recursive args w1))"

subsection \<open>Registration\<close>

definition RegisterInstallFunctions :: "(string \<times> 'sys builtin) list" where
  "RegisterInstallFunctions =
     [(''mount'', MountFn),
      (''unmount'', UnmountFn),
      (''format'', FormatFn),
      (''show_progress'', ShowProgressFn),
      (''delete'', DeleteFn),
      (''delete_recursive'', DeleteFn),
      (''package_extract'', PackageExtractFn),
      (''symlink'', SymlinkFn),
      (''set_perm'', SetPermFn),
      (''set_perm_recursive'', SetPermFn)]"

text \<open>Invoking the function registered under a name, with that name.\<close>

definition invoke :: "'sys env \<Rightarrow> string \<Rightarrow> expr list \<Rightarrow> 'sys world \<Rightarrow> (fault + (cstr option \<times> 'sys world)) option" where
  "invoke env name argv w =
     map_option (\<lambda>f. f env name argv w) (map_of RegisterInstallFunctions name)"

subsection \<open>A concrete environment\<close>

text \<open>
  The C library's \<^verbatim>\<open>strtoul(nptr, &end, 0)\<close> for a 32-bit \<^verbatim>\<open>unsigned long\<close>: leading white
  space, an optional sign, a prefix \<^verbatim>\<open>0x\<close> (hexadecimal) or \<^verbatim>\<open>0\<close> (octal), then the digits
  of the base. With no digit the value is 0 and \<^verbatim>\<open>end\<close> is \<^verbatim>\<open>nptr\<close>.
\<close>

definition is_space :: "char \<Rightarrow> bool" where
  "is_space c = (c \<in> set [CHR '' '', CHR 0x09, CHR 0x0A, CHR 0x0B, CHR 0x0C, CHR 0x0D])"

definition digit_val :: "char \<Rightarrow> nat" where
  "digit_val c =
     (let n = (of_char c :: nat) in
      if 48 \<le> n \<and> n \<le> 57 then n - 48
      else if 97 \<le> n \<and> n \<le> 122 then n - 87
      else if 65 \<le> n \<and> n \<le> 90 then n - 55
      else 36)"

fun scan_digits :: "nat \<Rightarrow> nat \<Rightarrow> string \<Rightarrow> nat \<times> string" where
  "scan_digits base acc [] = (acc, [])"
| "scan_digits base acc (c # cs) =
     (if digit_val c < base then scan_digits base (acc * base + digit_val c) cs
      else (acc, c # cs))"

definition ULONG_MAX :: nat where
  "ULONG_MAX = 4294967295"

definition c_strtoul :: "string \<Rightarrow> nat \<times> string" where
  "c_strtoul nptr =
     (let s1 = dropWhile is_space nptr;
          neg = (case s1 of [] \<Rightarrow> False | c # _ \<Rightarrow> c = CHR ''-'');
          s2 = (case s1 of [] \<Rightarrow> s1 | c # r \<Rightarrow> if c = CHR ''-'' \<or> c = CHR ''+'' then r else s1);
          hex = (case s2 of
                   z # x # h # _ \<Rightarrow> z = CHR ''0'' \<and> (x = CHR ''x'' \<or> x = CHR ''X'') \<and> digit_val h < 16
                 | _ \<Rightarrow> False);
          base = (if hex then 16
                  else case s2 of [] \<Rightarrow> 10 | z # _ \<Rightarrow> if z = CHR ''0'' then 8 else 10);
          s3 = (if hex then drop 2 s2 else s2)
      in case s3 of
           [] \<Rightarrow> (0, nptr)
         | c # _ \<Rightarrow>
             if digit_val c < base then
               (case scan_digits base 0 s3 of (v, rest) \<Rightarrow>
                  (if ULONG_MAX < v then ULONG_MAX
                   else if neg then (ULONG_MAX + 1 - v) mod (ULONG_MAX + 1)
                   else v, rest))
             else (0, nptr))"

text \<open>
  A small external system for concrete runs: the list of the names that exist (paths,
  partitions, mount points, archive entries). Removing needs the name, creating a link
  needs its absence, looking up a partition or a volume and mounting need the name.
\<close>

fun sample_drv :: "call \<Rightarrow> string list \<Rightarrow> int \<times> string list" where
  "sample_drv (Unlink p) fs = (if p \<in> set fs then (0, removeAll p fs) else (- 1, fs))"
| "sample_drv (DirUnlinkHierarchy p) fs = (if p \<in> set fs then (0, removeAll p fs) else (- 1, fs))"
| "sample_drv (Symlink t s) fs = (if s \<in> set fs then (- 1, fs) else (0, s # fs))"
| "sample_drv (MtdFindPartitionByName l) fs = (if l \<in> set fs then (1, fs) else (0, fs))"
| "sample_drv (FindMountedVolumeByMountPoint m) fs = (if m \<in> set fs then (1, fs) else (0, fs))"
| "sample_drv (MtdWritePartition h) fs = (2, fs)"
| "sample_drv (Mount l m t f d) fs = (if l \<in> set fs then (0, fs) else (- 1, fs))"
| "sample_drv (MzExtractRecursive z d f t) fs = (if z \<in> set fs then (1, d # fs) else (0, fs))"
| "sample_drv c fs = (0, fs)"

definition sample_env :: "string list env" where
  "sample_env =
     \<lparr>drv = sample_drv,
      strerror_errno = (\<lambda>s. ''No such file or directory''),
      strtoul = c_strtoul,
      progress_line = (\<lambda>f s. ''progress '' @ f @ '' '' @ s @ newline),
      va_junk = 0\<rparr>"

subsection \<open>Observations on a run\<close>

text \<open>What the script and the device see of a run: the value returned and the external system.\<close>

definition outcome :: "fault + (cstr option \<times> 'sys world) \<Rightarrow> (cstr option \<times> 'sys) option" where
  "outcome r = (case r of Inl f \<Rightarrow> None | Inr (v, w) \<Rightarrow> Some (v, sys w))"

text \<open>The strings that evaluating the nodes at positions \<open>i\<close>, \<open>i + 1\<close>, ... yields.\<close>

definition arg_vals :: "nat \<Rightarrow> string list \<Rightarrow> cstr list" where
  "arg_vals i ss = zip (map ArgVal [i..<i + length ss]) ss"

text \<open>A driver mount that succeeded: the flash mount returned 0, the generic one no negative value.\<close>

fun mount_succeeded :: "event \<Rightarrow> bool" where
  "mount_succeeded (Drv (MtdMountPartition h m f fl) r) = (r = 0)"
| "mount_succeeded (Drv (Mount l m t fl d) r) = (0 \<le> r)"
| "mount_succeeded e = False"

text \<open>
  What the drivers do for \<^verbatim>\<open>mount\<close> of a type, a location and a mount point on an external
  system: the mount point is created; for the type \<^verbatim>\<open>MTD\<close> the partitions are scanned and
  the named one is looked up, and if it is there it is mounted as \<^verbatim>\<open>yaffs2\<close>, read-write;
  for any other type the location is mounted with the three flags. The result is
  whether a mount succeeded, the driver calls with what they returned, and the external
  system afterwards.
\<close>

definition mount_drivers :: "'sys env \<Rightarrow> string \<Rightarrow> string \<Rightarrow> string \<Rightarrow> 'sys \<Rightarrow> bool \<times> event list \<times> 'sys" where
  "mount_drivers env t l m s =
     (case drv env (Mkdir m mode_0755) s of (r0, s1) \<Rightarrow>
      if t = ''MTD'' then
        (case drv env MtdScanPartitions s1 of (r1, s2) \<Rightarrow>
         case drv env (MtdFindPartitionByName l) s2 of (h, s3) \<Rightarrow>
         if h = 0 then
           (False,
            [Drv (Mkdir m mode_0755) r0, Drv MtdScanPartitions r1,
             Drv (MtdFindPartitionByName l) h], s3)
         else
           (case drv env (MtdMountPartition h m ''yaffs2'' 0) s3 of (r, s4) \<Rightarrow>
            (r = 0,
             [Drv (Mkdir m mode_0755) r0, Drv MtdScanPartitions r1,
              Drv (MtdFindPartitionByName l) h,
              Drv (MtdMountPartition h m ''yaffs2'' 0) r], s4)))
      else
        (case drv env (Mount l m t [MS_NOATIME, MS_NODEV, MS_NODIRATIME] []) s1 of (r, s2) \<Rightarrow>
         (0 \<le> r,
          [Drv (Mkdir m mode_0755) r0,
           Drv (Mount l m t [MS_NOATIME, MS_NODEV, MS_NODIRATIME] []) r], s2)))"

text \<open>The driver calls of a trace with what they returned, in order.\<close>

fun drv_events :: "event list \<Rightarrow> event list" where
  "drv_events [] = []"
| "drv_events (Drv c r # es) = Drv c r # drv_events es"
| "drv_events (e # es) = drv_events es"

text \<open>A removal that succeeded, and their number in a trace.\<close>

fun successful_removal :: "event \<Rightarrow> bool" where
  "successful_removal (Drv (Unlink p) r) = (r = 0)"
| "successful_removal (Drv (DirUnlinkHierarchy p) r) = (r = 0)"
| "successful_removal e = False"

definition removed :: "event list \<Rightarrow> nat" where
  "removed tr = length (filter successful_removal tr)"

text \<open>The driver calls of a trace, in order.\<close>

fun drv_calls :: "event list \<Rightarrow> call list" where
  "drv_calls [] = []"
| "drv_calls (Drv c r # es) = c # drv_calls es"
| "drv_calls (e # es) = drv_calls es"

text \<open>The removals of the given paths, one after the other, on the external system.\<close>

fun run_removals :: "'sys env \<Rightarrow> bool \<Rightarrow> string list \<Rightarrow> 'sys \<Rightarrow> event list \<times> 'sys" where
  "run_removals env recursive [] s = ([], s)"
| "run_removals env recursive (p # ps) s =
     (case drv env (if recursive then DirUnlinkHierarchy p else Unlink p) s of (r, s1) \<Rightarrow>
      case run_removals env recursive ps s1 of (es, s2) \<Rightarrow>
      (Drv (if recursive then DirUnlinkHierarchy p else Unlink p) r # es, s2))"

text \<open>
  The numeric arguments of \<^verbatim>\<open>set_perm\<close> and \<^verbatim>\<open>set_perm_recursive\<close> with the word each
  diagnostic uses for them, the tokens that do not parse, and the first of them.
\<close>

definition numeric_roles :: "string \<Rightarrow> string list" where
  "numeric_roles name =
     (if name = ''set_perm_recursive'' then [''uid'', ''gid'', ''dirmode'', ''filemode'']
      else [''uid'', ''gid'', ''mode''])"

definition bad_token :: "'sys env \<Rightarrow> string \<Rightarrow> bool" where
  "bad_token env tok = not_a_number (snd (strtoul env tok)) tok"

definition first_bad :: "'sys env \<Rightarrow> string \<Rightarrow> string list \<Rightarrow> (string \<times> string) option" where
  "first_bad env name ss = find (\<lambda>(tok, role). bad_token env tok) (zip ss (numeric_roles name))"

section \<open>Properties\<close>

subsection \<open>Basic facts\<close>

lemma thenF_simps [simp]:
  "thenF (Inl f) k = Inl f"
  "thenF (Inr a) k = k a"
  by (simp_all add: thenF_def)

lemma free_new [simp]:
  "p \<notin> set (freed w) \<Longrightarrow> free p w = Inr (w\<lparr>freed := freed w @ [p]\<rparr>)"
  by (simp add: free_def)

lemma free_again [simp]:
  "p \<in> set (freed w) \<Longrightarrow> free p w = Inl (DoubleFree p)"
  by (simp add: free_def)

lemma syscall_eq:
  "syscall env c w = (fst (drv env c (sys w)),
     w\<lparr>sys := snd (drv env c (sys w)), trace := trace w @ [Drv c (fst (drv env c (sys w)))]\<rparr>)"
  by (simp add: syscall_def split: prod.split)

lemmas prim_defs = ReadArgs_def ReadVarArgs_def Evaluate_def ErrorAbort_def SetError_def
  fprintf_stderr_def strdup_def fresh_def

lemma strtoul_0: "c_strtoul ''0'' = (0, [])"
  by (simp add: c_strtoul_def is_space_def digit_val_def Let_def ULONG_MAX_def)

lemma strtoul_0644: "c_strtoul ''0644'' = (420, [])"
  by (simp add: c_strtoul_def is_space_def digit_val_def Let_def ULONG_MAX_def)

lemma strtoul_x: "c_strtoul ''x'' = (0, ''x'')"
  by (simp add: c_strtoul_def is_space_def digit_val_def Let_def)

lemma dec_3: "dec 3 = ''3''"
  by (simp add: dec_def dec_nat.simps digits10_def)

subsection \<open>Evaluated argument lists\<close>

lemma arg_vals_Nil [simp]: "arg_vals i [] = []"
  by (simp add: arg_vals_def)

lemma upt_add_Suc: "[i..<Suc (i + n)] = i # [Suc i..<Suc (i + n)]"
  by (rule upt_conv_Cons) simp

lemma arg_vals_Cons: "arg_vals i (x # xs) = (ArgVal i, x) # arg_vals (Suc i) xs"
  by (simp add: arg_vals_def upt_add_Suc del: upt_Suc)

lemma length_arg_vals [simp]: "length (arg_vals i ss) = length ss"
  by (simp add: arg_vals_def)

lemma map_fst_arg_vals [simp]: "map fst (arg_vals i ss) = map ArgVal [i..<i + length ss]"
  by (simp add: arg_vals_def)

lemma map_snd_arg_vals [simp]: "map snd (arg_vals i ss) = ss"
  by (simp add: arg_vals_def)

lemma nth_arg_vals [simp]: "k < length ss \<Longrightarrow> arg_vals i ss ! k = (ArgVal (i + k), ss ! k)"
  by (simp add: arg_vals_def)

lemma eval_args_Some:
  "eval_args i (map Some ss) acc w =
     Inr (Some (acc @ arg_vals i ss), w\<lparr>trace := trace w @ map EvalArg [i..<i + length ss]\<rparr>)"
proof (induction ss arbitrary: i acc w)
  case Nil
  then show ?case by simp
next
  case (Cons x xs)
  then show ?case
    by (simp add: Evaluate_def arg_vals_Cons upt_add_Suc del: upt_Suc)
qed

lemma free_all_fresh:
  "distinct ps \<Longrightarrow> set ps \<inter> set (freed w) = {} \<Longrightarrow>
   free_all ps w = Inr (w\<lparr>freed := freed w @ ps\<rparr>)"
proof (induction ps arbitrary: w)
  case Nil
  then show ?case by simp
next
  case (Cons p ps)
  then show ?case by auto
qed

lemma setperm_done_fresh:
  "freed w = [] \<Longrightarrow>
   setperm_done (arg_vals 0 ss) r w =
     Inr (r, w\<lparr>freed := map ArgVal [0..<length ss] @ [ArgArray]\<rparr>)"
  by (simp add: setperm_done_def free_all_fresh distinct_map inj_on_def image_iff)

subsection \<open>mount, unmount, format\<close>

text \<open>
  C10. When all arguments of \<^verbatim>\<open>mount\<close>, \<^verbatim>\<open>unmount\<close> or \<^verbatim>\<open>format\<close> evaluate and one of
  them is the empty string, the builtin records a diagnostic through \<^verbatim>\<open>ErrorAbort\<close>
  (for the first empty argument), returns the null pointer, and has released every
  evaluated argument exactly once; no driver is called.
\<close>

theorem empty_argument_aborts:
  "(t = [] \<or> l = [] \<or> m = [] \<longrightarrow>
      MountFn env name [Some t, Some l, Some m] (fresh s) =
        Inr (None,
          \<lparr>sys = s,
           errmsg = Some (take 4095
             ((if t = [] then ''type'' else if l = [] then ''location'' else ''mount_point'')
              @ '' argument to '' @ name @ ''() can't be empty'')),
           freed = [ArgVal 0, ArgVal 1, ArgVal 2],
           trace = [EvalArg 0, EvalArg 1, EvalArg 2]\<rparr>))
   \<and> UnmountFn env name [Some []] (fresh s) =
        Inr (None,
          \<lparr>sys = s,
           errmsg = Some ''mount_point argument to unmount() can't be empty'',
           freed = [ArgVal 0],
           trace = [EvalArg 0]\<rparr>)
   \<and> (t = [] \<or> l = [] \<longrightarrow>
      FormatFn env name [Some t, Some l] (fresh s) =
        Inr (None,
          \<lparr>sys = s,
           errmsg = Some (take 4095
             ((if t = [] then ''type'' else ''location'')
              @ '' argument to '' @ name @ ''() can't be empty'')),
           freed = [ArgVal 0, ArgVal 1],
           trace = [EvalArg 0, EvalArg 1]\<rparr>))"
proof (intro conjI impI)
  assume "t = [] \<or> l = [] \<or> m = []"
  then show "MountFn env name [Some t, Some l, Some m] (fresh s) =
        Inr (None,
          \<lparr>sys = s,
           errmsg = Some (take 4095
             ((if t = [] then ''type'' else if l = [] then ''location'' else ''mount_point'')
              @ '' argument to '' @ name @ ''() can't be empty'')),
           freed = [ArgVal 0, ArgVal 1, ArgVal 2],
           trace = [EvalArg 0, EvalArg 1, EvalArg 2]\<rparr>)"
    by (auto simp add: MountFn_def mount_body_def mount_done_def prim_defs)
next
  show "UnmountFn env name [Some []] (fresh s) =
        Inr (None,
          \<lparr>sys = s,
           errmsg = Some ''mount_point argument to unmount() can't be empty'',
           freed = [ArgVal 0],
           trace = [EvalArg 0]\<rparr>)"
    by (simp add: UnmountFn_def unmount_body_def unmount_done_def prim_defs)
next
  assume "t = [] \<or> l = []"
  then show "FormatFn env name [Some t, Some l] (fresh s) =
        Inr (None,
          \<lparr>sys = s,
           errmsg = Some (take 4095
             ((if t = [] then ''type'' else ''location'')
              @ '' argument to '' @ name @ ''() can't be empty'')),
           freed = [ArgVal 0, ArgVal 1],
           trace = [EvalArg 0, EvalArg 1]\<rparr>)"
    by (auto simp add: FormatFn_def format_body_def format_done_def prim_defs)
qed

theorem empty_argument_aborts_witness:
  "MountFn sample_env ''mount'' [Some ''MTD'', Some [], Some ''/system''] (fresh [''system'']) =
     Inr (None,
       \<lparr>sys = [''system''],
        errmsg = Some ''location argument to mount() can't be empty'',
        freed = [ArgVal 0, ArgVal 1, ArgVal 2],
        trace = [EvalArg 0, EvalArg 1, EvalArg 2]\<rparr>)
   \<and> UnmountFn sample_env ''unmount'' [Some []] (fresh [''system'']) =
     Inr (None,
       \<lparr>sys = [''system''],
        errmsg = Some ''mount_point argument to unmount() can't be empty'',
        freed = [ArgVal 0],
        trace = [EvalArg 0]\<rparr>)
   \<and> FormatFn sample_env ''format'' [Some [], Some ''system''] (fresh [''system'']) =
     Inr (None,
       \<lparr>sys = [''system''],
        errmsg = Some ''type argument to format() can't be empty'',
        freed = [ArgVal 0, ArgVal 1],
        trace = [EvalArg 0, EvalArg 1]\<rparr>)"
  using empty_argument_aborts [of "''MTD''" "[]" "''/system''" sample_env "''mount''" "[''system'']"]
    empty_argument_aborts [of "[]" "[]" "[]" sample_env "''unmount''" "[''system'']"]
    empty_argument_aborts [of "[]" "''system''" "[]" sample_env "''format''" "[''system'']"]
  by simp

text \<open>
  C6. For \<^verbatim>\<open>mount\<close> with three evaluated, non-empty arguments: the call returns, and what
  it returns is decided by the drivers (\<open>mount_drivers\<close>, on the external system the call
  starts on). If the driver mount succeeded, the value returned is the \<^verbatim>\<open>mount_point\<close>
  string itself (the address of the third argument) and only \<^verbatim>\<open>type\<close> and \<^verbatim>\<open>location\<close>
  are released, each once. Otherwise (the driver mount failed, or the partition was not
  found, in which case no mount is attempted) the value is a string of its own, empty,
  and \<^verbatim>\<open>type\<close>, \<^verbatim>\<open>location\<close> and \<^verbatim>\<open>mount_point\<close> are released, each once. The driver
  calls the run makes, with their results, and the external system it leaves are those
  of \<open>mount_drivers\<close>; no error is recorded.
\<close>

theorem mount_result_ownership:
  "t \<noteq> [] \<Longrightarrow> l \<noteq> [] \<Longrightarrow> m \<noteq> [] \<Longrightarrow>
   (case MountFn env name [Some t, Some l, Some m] (fresh s) of
      Inl f \<Rightarrow> False
    | Inr (ret, w') \<Rightarrow>
        (case mount_drivers env t l m s of
           (ok, evs, s') \<Rightarrow>
             ret = (if ok then Some (ArgVal 2, m) else Some (Dup, []))
             \<and> freed w' = (if ok then [ArgVal 0, ArgVal 1] else [ArgVal 0, ArgVal 1, ArgVal 2])
             \<and> sys w' = s'
             \<and> drv_events (trace w') = evs
             \<and> errmsg w' = None)
        \<and> (if list_ex mount_succeeded (trace w')
            then ret = Some (ArgVal 2, m) \<and> freed w' = [ArgVal 0, ArgVal 1]
            else ret = Some (Dup, []) \<and> freed w' = [ArgVal 0, ArgVal 1, ArgVal 2])
        \<and> (Drv (MtdFindPartitionByName l) 0 \<in> set (trace w') \<longrightarrow> ret = Some (Dup, [])))"
  by (simp add: MountFn_def mount_body_def mount_done_def prim_defs syscall_eq mount_drivers_def
      case_prod_beta)

theorem mount_result_ownership_witness:
  "MountFn sample_env ''mount'' [Some ''MTD'', Some ''system'', Some ''/system''] (fresh [''system'']) =
     Inr (Some (ArgVal 2, ''/system''),
       \<lparr>sys = [''system''], errmsg = None,
        freed = [ArgVal 0, ArgVal 1],
        trace = [EvalArg 0, EvalArg 1, EvalArg 2, Drv (Mkdir ''/system'' 493) 0,
                 Drv MtdScanPartitions 0, Drv (MtdFindPartitionByName ''system'') 1,
                 Drv (MtdMountPartition 1 ''/system'' ''yaffs2'' 0) 0]\<rparr>)
   \<and> mount_drivers sample_env ''MTD'' ''system'' ''/system'' [''system''] =
       (True,
        [Drv (Mkdir ''/system'' 493) 0, Drv MtdScanPartitions 0,
         Drv (MtdFindPartitionByName ''system'') 1,
         Drv (MtdMountPartition 1 ''/system'' ''yaffs2'' 0) 0],
        [''system''])
   \<and> MountFn sample_env ''mount'' [Some ''MTD'', Some ''nonexistent'', Some ''/mnt/x''] (fresh [''system'']) =
     Inr (Some (Dup, []),
       \<lparr>sys = [''system''], errmsg = None,
        freed = [ArgVal 0, ArgVal 1, ArgVal 2],
        trace = [EvalArg 0, EvalArg 1, EvalArg 2, Drv (Mkdir ''/mnt/x'' 493) 0,
                 Drv MtdScanPartitions 0, Drv (MtdFindPartitionByName ''nonexistent'') 0,
                 Stderr (''mount: no mtd partition named '' @ dquote @ ''nonexistent'' @ dquote)]\<rparr>)
   \<and> mount_drivers sample_env ''MTD'' ''nonexistent'' ''/mnt/x'' [''system''] =
       (False,
        [Drv (Mkdir ''/mnt/x'' 493) 0, Drv MtdScanPartitions 0,
         Drv (MtdFindPartitionByName ''nonexistent'') 0],
        [''system''])"
proof -
  have d1: "mount_drivers sample_env ''MTD'' ''system'' ''/system'' [''system''] =
       (True,
        [Drv (Mkdir ''/system'' 493) 0, Drv MtdScanPartitions 0,
         Drv (MtdFindPartitionByName ''system'') 1,
         Drv (MtdMountPartition 1 ''/system'' ''yaffs2'' 0) 0],
        [''system''])"
    by (simp add: mount_drivers_def sample_env_def mode_0755_def)
  have d2: "mount_drivers sample_env ''MTD'' ''nonexistent'' ''/mnt/x'' [''system''] =
       (False,
        [Drv (Mkdir ''/mnt/x'' 493) 0, Drv MtdScanPartitions 0,
         Drv (MtdFindPartitionByName ''nonexistent'') 0],
        [''system''])"
    by (simp add: mount_drivers_def sample_env_def mode_0755_def)
  have r1: "MountFn sample_env ''mount'' [Some ''MTD'', Some ''system'', Some ''/system''] (fresh [''system'']) =
     Inr (Some (ArgVal 2, ''/system''),
       \<lparr>sys = [''system''], errmsg = None,
        freed = [ArgVal 0, ArgVal 1],
        trace = [EvalArg 0, EvalArg 1, EvalArg 2, Drv (Mkdir ''/system'' 493) 0,
                 Drv MtdScanPartitions 0, Drv (MtdFindPartitionByName ''system'') 1,
                 Drv (MtdMountPartition 1 ''/system'' ''yaffs2'' 0) 0]\<rparr>)"
    by (simp add: MountFn_def mount_body_def mount_done_def prim_defs syscall_eq sample_env_def
        mode_0755_def)
  have r2: "MountFn sample_env ''mount'' [Some ''MTD'', Some ''nonexistent'', Some ''/mnt/x''] (fresh [''system'']) =
     Inr (Some (Dup, []),
       \<lparr>sys = [''system''], errmsg = None,
        freed = [ArgVal 0, ArgVal 1, ArgVal 2],
        trace = [EvalArg 0, EvalArg 1, EvalArg 2, Drv (Mkdir ''/mnt/x'' 493) 0,
                 Drv MtdScanPartitions 0, Drv (MtdFindPartitionByName ''nonexistent'') 0,
                 Stderr (''mount: no mtd partition named '' @ dquote @ ''nonexistent'' @ dquote)]\<rparr>)"
    by (simp add: MountFn_def mount_body_def mount_done_def prim_defs syscall_eq sample_env_def
        mode_0755_def)
  from mount_result_ownership [where t = "''MTD''" and l = "''system''" and m = "''/system''"
      and env = sample_env and name = "''mount''" and s = "[''system'']"]
    mount_result_ownership [where t = "''MTD''" and l = "''nonexistent''" and m = "''/mnt/x''"
      and env = sample_env and name = "''mount''" and s = "[''system'']"]
    d1 d2 r1 r2
  show ?thesis by simp
qed

subsection \<open>package_extract\<close>

text \<open>
  C7. \<^verbatim>\<open>package_extract\<close> with two evaluated arguments issues one request to the archive
  service, for files only, with the access and modification time 1217592000: a
  constant, whatever the state the call starts in. It returns a string of its own,
  \<^verbatim>\<open>"t"\<close> when the extraction succeeded and the empty string when it failed, and records
  no error. Two runs on the same external system with the same arguments return the
  same value and leave the same external system.
\<close>

theorem package_extract_fixed_timestamp:
  "freed w1 = [] \<Longrightarrow> freed w2 = [] \<Longrightarrow> sys w1 = sys w2 \<Longrightarrow>
   PackageExtractFn env name [Some z, Some d] w1 =
     (case drv env (MzExtractRecursive z d MZ_EXTRACT_FILES_ONLY (1217592000, 1217592000)) (sys w1) of
        (r, s') \<Rightarrow>
          Inr (Some (Dup, if r \<noteq> 0 then ''t'' else []),
               w1\<lparr>sys := s', freed := [ArgVal 0, ArgVal 1],
                   trace := trace w1 @ [EvalArg 0, EvalArg 1,
                     Drv (MzExtractRecursive z d MZ_EXTRACT_FILES_ONLY (1217592000, 1217592000)) r]\<rparr>))
   \<and> outcome (PackageExtractFn env name [Some z, Some d] w1) =
       outcome (PackageExtractFn env name [Some z, Some d] w2)
   \<and> outcome (PackageExtractFn env name [Some z, Some d] w1) \<noteq> None"
  by (simp add: PackageExtractFn_def prim_defs syscall_def timestamp_def outcome_def
      split: prod.split)

theorem package_extract_fixed_timestamp_witness:
  "PackageExtractFn sample_env ''package_extract'' [Some ''META/x'', Some ''/out/x'']
       (fresh [''META/x'']) =
     Inr (Some (Dup, ''t''),
       \<lparr>sys = [''/out/x'', ''META/x''], errmsg = None,
        freed = [ArgVal 0, ArgVal 1],
        trace = [EvalArg 0, EvalArg 1,
                 Drv (MzExtractRecursive ''META/x'' ''/out/x'' MZ_EXTRACT_FILES_ONLY
                        (1217592000, 1217592000)) 1]\<rparr>)
   \<and> outcome (PackageExtractFn sample_env ''package_extract'' [Some ''META/x'', Some ''/out/x'']
        (fresh [''META/x''])) =
     outcome (PackageExtractFn sample_env ''package_extract'' [Some ''META/x'', Some ''/out/x'']
        ((fresh [''META/x''])\<lparr>errmsg := Some ''earlier'', trace := [Stderr ''later run'']\<rparr>))"
  using package_extract_fixed_timestamp [of "fresh [''META/x'']"
      "(fresh [''META/x''])\<lparr>errmsg := Some ''earlier'', trace := [Stderr ''later run'']\<rparr>"
      sample_env "''package_extract''" "''META/x''" "''/out/x''"]
  by (simp add: PackageExtractFn_def prim_defs syscall_def timestamp_def outcome_def
      sample_env_def)

subsection \<open>Evaluations of delete, symlink and set_perm\<close>

text \<open>
  C2. \<^verbatim>\<open>delete("/a", <failing>)\<close>: the second path fails to evaluate after the first was
  evaluated. The cleanup loop releases the first path, increments \<open>i\<close> instead of \<open>j\<close>,
  and releases the first path again: the run ends in a double free, whatever the
  drivers do.
\<close>

theorem delete_cleanup_double_free:
  "DeleteFn env ''delete'' [Some ''/a'', None] (fresh s) = Inl (DoubleFree (ArgVal 0))"
  by (simp add: DeleteFn_def prim_defs delete_cleanup.simps INT_MAX_def)

text \<open>
  C3. \<^verbatim>\<open>set_perm("0", "0", "0644", "/a")\<close>: the three numbers parse, the call returns the
  empty string, and the trace holds the four evaluations only: neither \<^verbatim>\<open>chown\<close> nor
  \<^verbatim>\<open>chmod\<close> is called on the target \<^verbatim>\<open>/a\<close>, the fourth argument.
\<close>

theorem set_perm_skips_first_target:
  "SetPermFn sample_env ''set_perm'' [Some ''0'', Some ''0'', Some ''0644'', Some ''/a'']
       (fresh [''/a'']) =
     Inr (Some (Dup, []),
       \<lparr>sys = [''/a''], errmsg = None,
        freed = [ArgVal 0, ArgVal 1, ArgVal 2, ArgVal 3, ArgArray],
        trace = [EvalArg 0, EvalArg 1, EvalArg 2, EvalArg 3]\<rparr>)"
  by (simp add: SetPermFn_def setperm_body_def setperm_done_def prim_defs sample_env_def
      strtoul_0 strtoul_0644 not_a_number_def)

text \<open>
  C4. \<^verbatim>\<open>set_perm("0", "0", "0644")\<close>, one argument short: the call aborts before any
  evaluation, and the message recorded is \<^verbatim>\<open>set_perm() expects 3+ args, got\<close> followed by
  an indeterminate number: the actual count stands where the expected one should, and
  the expected count, 4, is not passed to the format.
\<close>

theorem set_perm_arity_message:
  "SetPermFn env ''set_perm'' [Some ''0'', Some ''0'', Some ''0644''] (fresh s) =
     Inr (None,
       \<lparr>sys = s,
        errmsg = Some (take 4095 (''set_perm() expects 3+ args, got '' @ dec (va_junk env))),
        freed = [], trace = []\<rparr>)"
  by (simp add: SetPermFn_def prim_defs dec_3)

text \<open>
  The builtins of fixed arity and \<^verbatim>\<open>symlink\<close> abort on a wrong number of arguments
  before any evaluation, with a message that names the function, the expected and the
  actual count.
\<close>

lemma arity_violation_aborts:
  "length argv \<noteq> 3 \<Longrightarrow> MountFn env name argv (fresh s) =
     Inr (None, \<lparr>sys = s,
        errmsg = Some (take 4095 (name @ ''() expects 3 args, got '' @ dec (int (length argv)))),
        freed = [], trace = []\<rparr>)"
  "length argv \<noteq> 1 \<Longrightarrow> UnmountFn env name argv (fresh s) =
     Inr (None, \<lparr>sys = s,
        errmsg = Some (take 4095 (name @ ''() expects 1 arg, got '' @ dec (int (length argv)))),
        freed = [], trace = []\<rparr>)"
  "length argv \<noteq> 2 \<Longrightarrow> FormatFn env name argv (fresh s) =
     Inr (None, \<lparr>sys = s,
        errmsg = Some (take 4095 (name @ ''() expects 2 args, got '' @ dec (int (length argv)))),
        freed = [], trace = []\<rparr>)"
  "length argv \<noteq> 2 \<Longrightarrow> ShowProgressFn env name argv (fresh s) =
     Inr (None, \<lparr>sys = s,
        errmsg = Some (take 4095 (name @ ''() expects 2 args, got '' @ dec (int (length argv)))),
        freed = [], trace = []\<rparr>)"
  "length argv \<noteq> 2 \<Longrightarrow> PackageExtractFn env name argv (fresh s) =
     Inr (None, \<lparr>sys = s,
        errmsg = Some (take 4095 (name @ ''() expects 2 args, got '' @ dec (int (length argv)))),
        freed = [], trace = []\<rparr>)"
  "SymlinkFn env name [] (fresh s) =
     Inr (None, \<lparr>sys = s,
        errmsg = Some (take 4095 (name @ ''() expects 1+ args, got '' @ dec 0)),
        freed = [], trace = []\<rparr>)"
  by (simp_all add: MountFn_def UnmountFn_def FormatFn_def ShowProgressFn_def
      PackageExtractFn_def SymlinkFn_def prim_defs)

text \<open>
  C8. \<^verbatim>\<open>symlink("/target", "/a", "/b")\<close> where \<^verbatim>\<open>/a\<close> exists: the first link fails, the
  second is made, and the call returns the empty string. The two sources and the array
  are released; the target, the string of the first argument, is never released.
\<close>

theorem symlink_leaks_target:
  "SymlinkFn sample_env ''symlink'' [Some ''/target'', Some ''/a'', Some ''/b''] (fresh [''/a'']) =
     Inr (Some (Dup, []),
       \<lparr>sys = [''/b'', ''/a''], errmsg = None,
        freed = [ArgVal 1, ArgVal 2, ArgArray],
        trace = [EvalArg 0, EvalArg 1, EvalArg 2,
                 Drv (Symlink ''/target'' ''/a'') (- 1), Drv (Symlink ''/target'' ''/b'') 0]\<rparr>)"
  by (simp add: SymlinkFn_def prim_defs sample_env_def syscall_def)

subsection \<open>delete and delete_recursive on evaluated paths\<close>

lemma removed_Nil [simp]: "removed [] = 0"
  by (simp add: removed_def)

lemma removed_append [simp]: "removed (a @ b) = removed a + removed b"
  by (simp add: removed_def)

lemma removed_Cons: "removed (e # es) = (if successful_removal e then 1 else 0) + removed es"
  by (simp add: removed_def)

lemma removed_evals [simp]: "removed (map EvalArg xs) = 0"
  by (induction xs) (simp_all add: removed_def)

lemma drv_calls_append [simp]: "drv_calls (a @ b) = drv_calls a @ drv_calls b"
  by (induction a rule: drv_calls.induct) simp_all

lemma drv_calls_evals [simp]: "drv_calls (map EvalArg xs) = []"
  by (induction xs) simp_all

lemma delete_eval_Some:
  "delete_eval i (map Some ss) paths w =
     Inr (Some (paths @ arg_vals i ss), w\<lparr>trace := trace w @ map EvalArg [i..<i + length ss]\<rparr>)"
proof (induction ss arbitrary: i paths w)
  case Nil
  then show ?case by simp
next
  case (Cons x xs)
  then show ?case
    by (simp add: Evaluate_def arg_vals_Cons upt_add_Suc del: upt_Suc)
qed

lemma delete_paths_run:
  "distinct (map fst ps) \<Longrightarrow> fst ` set ps \<inter> set (freed w) = {} \<Longrightarrow>
   delete_paths env recursive ps n w =
     Inr (n + int (removed (fst (run_removals env recursive (map snd ps) (sys w)))),
          w\<lparr>sys := snd (run_removals env recursive (map snd ps) (sys w)),
            freed := freed w @ map fst ps,
            trace := trace w @ fst (run_removals env recursive (map snd ps) (sys w))\<rparr>)"
proof (induction ps arbitrary: n w)
  case Nil
  then show ?case by simp
next
  case (Cons p ps)
  from Cons.prems have fresh_p: "fst p \<notin> set (freed w)"
    and rest: "distinct (map fst ps)" "fst ` set ps \<inter> set (freed w @ [fst p]) = {}"
    by auto
  show ?case
    using fresh_p rest
    by (simp add: syscall_eq Cons.IH removed_Cons case_prod_beta)
qed

lemma run_removals_calls:
  "drv_calls (fst (run_removals env recursive ss s)) =
     map (if recursive then DirUnlinkHierarchy else Unlink) ss"
  by (induction ss arbitrary: s) (simp_all add: case_prod_beta)

lemma run_removals_removed:
  "removed (fst (run_removals env recursive ss s)) \<le> length ss"
proof (induction ss arbitrary: s)
  case Nil
  then show ?case by simp
next
  case (Cons p ps)
  let ?c = "if recursive then DirUnlinkHierarchy p else Unlink p"
  have "removed (fst (run_removals env recursive ps (snd (drv env ?c s)))) \<le> length ps"
    by (rule Cons.IH)
  then show ?case
    by (simp add: removed_Cons case_prod_beta)
qed

lemma length_dec_nat: "0 < k \<Longrightarrow> n < 10 ^ k \<Longrightarrow> length (dec_nat n) \<le> k"
proof (induction n arbitrary: k rule: dec_nat.induct)
  case (1 n)
  show ?case
  proof (cases "n < 10")
    case True
    with "1.prems" show ?thesis by (simp add: dec_nat.simps [of n])
  next
    case False
    with "1.prems" obtain k' where k: "k = Suc k'" "0 < k'"
      by (cases k; cases "k - 1") auto
    with "1.prems" have "n div 10 < 10 ^ k'"
      by (simp add: less_mult_imp_div_less mult.commute)
    with "1.IH" [OF False k(2)] have "length (dec_nat (n div 10)) \<le> k'" by simp
    with False k show ?thesis by (simp add: dec_nat.simps [of n])
  qed
qed

lemma dec_nat_nonempty: "dec_nat n \<noteq> []"
  by (simp add: dec_nat.simps [of n])

lemma dec_nonempty: "dec i \<noteq> []"
  by (simp add: dec_def dec_nat_nonempty)

lemma delete_count:
  assumes "length ss < 1000000000"
  shows "DeleteFn env name (map Some ss) (fresh s) =
     Inr (Some (Dup, dec (int (removed (fst (run_removals env (name = ''delete_recursive'') ss s))))),
       \<lparr>sys = snd (run_removals env (name = ''delete_recursive'') ss s),
        errmsg = None,
        freed = map ArgVal [0..<length ss] @ [ArgArray],
        trace = map EvalArg [0..<length ss] @ fst (run_removals env (name = ''delete_recursive'') ss s)\<rparr>)"
proof -
  let ?k = "removed (fst (run_removals env (name = ''delete_recursive'') ss s))"
  have "?k \<le> length ss" by (rule run_removals_removed)
  with assms have "?k < 10 ^ 9" by simp
  then have "length (dec_nat ?k) \<le> 9" by (intro length_dec_nat) simp_all
  then have fits: "sprintf_buffer10 (dec (int ?k)) = Inr (dec (int ?k))"
    by (simp add: sprintf_buffer10_def dec_def)
  show ?thesis
    by (simp add: DeleteFn_def delete_eval_Some delete_paths_run fresh_def distinct_map inj_on_def
        image_iff fits strdup_def)
qed

text \<open>
  C5. When all path arguments of \<^verbatim>\<open>delete\<close> or \<^verbatim>\<open>delete_recursive\<close> evaluate (fewer than
  \<open>10\<^sup>9\<close> of them, so that the count fits the buffer of 10 bytes), the call returns a
  string of its own, non-empty: the decimal representation of the number of paths whose
  removal by the driver returned 0, the removals being made one per path, in order, on
  the external system the call starts on (recursive under the name
  \<^verbatim>\<open>delete_recursive\<close>). The run leaves the external system those removals leave, records
  no error, and releases each path once. With no arguments the value is \<^verbatim>\<open>"0"\<close>.
\<close>

theorem delete_returns_count:
  "length ss < 1000000000 \<Longrightarrow>
   DeleteFn env name (map Some ss) (fresh s) =
     Inr (Some (Dup, dec (int (removed (fst (run_removals env (name = ''delete_recursive'') ss s))))),
       \<lparr>sys = snd (run_removals env (name = ''delete_recursive'') ss s),
        errmsg = None,
        freed = map ArgVal [0..<length ss] @ [ArgArray],
        trace = map EvalArg [0..<length ss] @ fst (run_removals env (name = ''delete_recursive'') ss s)\<rparr>)
   \<and> dec (int (removed (fst (run_removals env (name = ''delete_recursive'') ss s)))) \<noteq> []
   \<and> removed (fst (run_removals env (name = ''delete_recursive'') ss s)) \<le> length ss
   \<and> drv_calls (fst (run_removals env (name = ''delete_recursive'') ss s)) =
       map (if name = ''delete_recursive'' then DirUnlinkHierarchy else Unlink) ss
   \<and> DeleteFn env name [] (fresh s) =
       Inr (Some (Dup, ''0''), \<lparr>sys = s, errmsg = None, freed = [ArgArray], trace = []\<rparr>)"
proof -
  assume len: "length ss < 1000000000"
  have zero: "dec 0 = ''0''"
    by (simp add: dec_def dec_nat.simps digits10_def)
  have empty: "DeleteFn env name [] (fresh s) =
       Inr (Some (Dup, ''0''), \<lparr>sys = s, errmsg = None, freed = [ArgArray], trace = []\<rparr>)"
    by (simp add: DeleteFn_def prim_defs sprintf_buffer10_def zero)
  from delete_count [OF len, of env name s] empty show ?thesis
    by (simp add: dec_nonempty run_removals_removed run_removals_calls)
qed

theorem delete_returns_count_witness:
  "length [''/a'', ''/b'', ''/c''] < (1000000000 :: nat)
   \<and> DeleteFn sample_env ''delete'' [Some ''/a'', Some ''/b'', Some ''/c''] (fresh [''/a'', ''/c'']) =
     Inr (Some (Dup, ''2''),
       \<lparr>sys = [], errmsg = None,
        freed = [ArgVal 0, ArgVal 1, ArgVal 2, ArgArray],
        trace = [EvalArg 0, EvalArg 1, EvalArg 2,
                 Drv (Unlink ''/a'') 0, Drv (Unlink ''/b'') (- 1), Drv (Unlink ''/c'') 0]\<rparr>)
   \<and> run_removals sample_env False [''/a'', ''/b'', ''/c''] [''/a'', ''/c''] =
       ([Drv (Unlink ''/a'') 0, Drv (Unlink ''/b'') (- 1), Drv (Unlink ''/c'') 0], [])
   \<and> removed [Drv (Unlink ''/a'') 0, Drv (Unlink ''/b'') (- 1), Drv (Unlink ''/c'') 0] = 2"
proof -
  have two: "dec 2 = ''2''"
    by (simp add: dec_def dec_nat.simps digits10_def)
  have rr: "run_removals sample_env False [''/a'', ''/b'', ''/c''] [''/a'', ''/c''] =
       ([Drv (Unlink ''/a'') 0, Drv (Unlink ''/b'') (- 1), Drv (Unlink ''/c'') 0], [])"
    by (simp add: sample_env_def)
  have rm: "removed [Drv (Unlink ''/a'') 0, Drv (Unlink ''/b'') (- 1), Drv (Unlink ''/c'') 0] = 2"
    by (simp add: removed_def)
  from delete_returns_count [where ss = "[''/a'', ''/b'', ''/c'']" and env = sample_env
      and name = "''delete''" and s = "[''/a'', ''/c'']"]
  have "DeleteFn sample_env ''delete'' [Some ''/a'', Some ''/b'', Some ''/c''] (fresh [''/a'', ''/c'']) =
     Inr (Some (Dup, ''2''),
       \<lparr>sys = [], errmsg = None,
        freed = [ArgVal 0, ArgVal 1, ArgVal 2, ArgArray],
        trace = [EvalArg 0, EvalArg 1, EvalArg 2,
                 Drv (Unlink ''/a'') 0, Drv (Unlink ''/b'') (- 1), Drv (Unlink ''/c'') 0]\<rparr>)"
    by (simp add: rr rm two upt_rec del: run_removals.simps)
  with rr rm show ?thesis by simp
qed

subsection \<open>set_perm with a number that does not parse\<close>

lemma SetPermFn_evaluated:
  "(if name = ''set_perm_recursive'' then 5 else 4) \<le> length ss \<Longrightarrow>
   SetPermFn env name (map Some ss) (fresh s) =
     setperm_body env name (name = ''set_perm_recursive'') (arg_vals 0 ss)
       \<lparr>sys = s, errmsg = None, freed = [], trace = map EvalArg [0..<length ss]\<rparr>"
  by (simp add: SetPermFn_def ReadVarArgs_def eval_args_Some fresh_def Let_def split: if_splits)

lemma SetPermFn_bad_number:
  assumes arity: "(if name = ''set_perm_recursive'' then 5 else 4) \<le> length ss"
    and bad: "first_bad env name ss = Some (tok, role)"
  shows "SetPermFn env name (map Some ss) (fresh s) =
     Inr (None,
       \<lparr>sys = s,
        errmsg = Some (take 4095 (name @ '': '' @ dquote @ tok @ dquote @ '' not a valid '' @ role)),
        freed = map ArgVal [0..<length ss] @ [ArgArray],
        trace = map EvalArg [0..<length ss]\<rparr>)"
proof -
  from arity have "4 \<le> length ss"
    by (simp split: if_splits)
  then obtain a b c d rest where ss: "ss = a # b # c # d # rest"
    by (auto simp add: numeral_eq_Suc Suc_le_length_iff)
  have nth: "arg_vals 0 ss ! 0 = (ArgVal 0, a)" "arg_vals 0 ss ! 1 = (ArgVal 1, b)"
    "arg_vals 0 ss ! 2 = (ArgVal 2, c)" "arg_vals 0 ss ! 3 = (ArgVal 3, d)"
    by (simp_all add: ss)
  from bad have "find (\<lambda>(tok, role). bad_token env tok) (zip [a, b, c, d] (numeric_roles name)) = Some (tok, role)"
    by (simp add: first_bad_def ss numeric_roles_def split: if_splits)
  then show ?thesis
    unfolding SetPermFn_evaluated [OF arity] setperm_body_def nth
    by (auto simp add: setperm_done_fresh numeric_roles_def bad_token_def ErrorAbort_def SetError_def
        split: prod.splits if_splits)
qed

text \<open>
  C9. \<^verbatim>\<open>set_perm\<close> (at least 4 arguments) and \<^verbatim>\<open>set_perm_recursive\<close> (at least 5), all
  arguments evaluated: when one of the numeric arguments (uid, gid, mode, or uid, gid,
  dirmode, filemode) is empty or is not consumed to its end by \<^verbatim>\<open>strtoul\<close>, the call
  returns the null pointer, the error recorded is the message \<^verbatim>\<open>ErrorAbort\<close> formats
  from the first such token and its role, no driver is called (no \<^verbatim>\<open>chown\<close>, no
  \<^verbatim>\<open>chmod\<close>, no permission walk), and every argument and the array are released once.
\<close>

theorem set_perm_bad_number_aborts:
  "(if name = ''set_perm_recursive'' then 5 else 4) \<le> length ss \<Longrightarrow>
   first_bad env name ss = Some (tok, role) \<Longrightarrow>
   (case SetPermFn env name (map Some ss) (fresh s) of
      Inl f \<Rightarrow> False
    | Inr (ret, w') \<Rightarrow>
        ret = None
        \<and> errmsg w' = Some (take 4095 (name @ '': '' @ dquote @ tok @ dquote @ '' not a valid '' @ role))
        \<and> drv_calls (trace w') = []
        \<and> sys w' = s
        \<and> freed w' = map ArgVal [0..<length ss] @ [ArgArray])"
  by (simp add: SetPermFn_bad_number)

theorem set_perm_bad_number_aborts_witness:
  "(if ''set_perm'' = ''set_perm_recursive'' then 5 else 4) \<le> length [''x'', ''0'', ''0644'', ''/a'']
   \<and> first_bad sample_env ''set_perm'' [''x'', ''0'', ''0644'', ''/a''] = Some (''x'', ''uid'')
   \<and> SetPermFn sample_env ''set_perm'' [Some ''x'', Some ''0'', Some ''0644'', Some ''/a'']
        (fresh [''/a'']) =
     Inr (None,
       \<lparr>sys = [''/a''],
        errmsg = Some (''set_perm: '' @ dquote @ ''x'' @ dquote @ '' not a valid uid''),
        freed = [ArgVal 0, ArgVal 1, ArgVal 2, ArgVal 3, ArgArray],
        trace = [EvalArg 0, EvalArg 1, EvalArg 2, EvalArg 3]\<rparr>)"
proof -
  have bad: "first_bad sample_env ''set_perm'' [''x'', ''0'', ''0644'', ''/a''] = Some (''x'', ''uid'')"
    by (simp add: first_bad_def numeric_roles_def bad_token_def sample_env_def strtoul_x
        not_a_number_def)
  have run: "SetPermFn sample_env ''set_perm'' [Some ''x'', Some ''0'', Some ''0644'', Some ''/a'']
        (fresh [''/a'']) =
     Inr (None,
       \<lparr>sys = [''/a''],
        errmsg = Some (''set_perm: '' @ dquote @ ''x'' @ dquote @ '' not a valid uid''),
        freed = [ArgVal 0, ArgVal 1, ArgVal 2, ArgVal 3, ArgArray],
        trace = [EvalArg 0, EvalArg 1, EvalArg 2, EvalArg 3]\<rparr>)"
    by (simp add: SetPermFn_def setperm_body_def setperm_done_def prim_defs sample_env_def
        strtoul_x not_a_number_def dquote_def)
  from set_perm_bad_number_aborts [where name = "''set_perm''" and ss = "[''x'', ''0'', ''0644'', ''/a'']"
      and env = sample_env and tok = "''x''" and role = "''uid''" and s = "[''/a'']"] bad run
  show ?thesis by simp
qed

subsection \<open>format of an unsupported type\<close>

text \<open>
  C1. \<^verbatim>\<open>format("ext4", "system")\<close>: both arguments evaluate and are not empty, and the type
  is not \<^verbatim>\<open>"MTD"\<close>. The call prints the diagnostic for an unsupported type, releases both
  arguments and returns the null pointer, not an empty string; no error is recorded, so
  \<^verbatim>\<open>ErrorAbort\<close> was not called. This holds whatever the drivers and the external system.
\<close>

theorem format_unsupported_type_returns_null:
  "FormatFn env ''format'' [Some ''ext4'', Some ''system''] (fresh s) =
     Inr (None,
       \<lparr>sys = s, errmsg = None,
        freed = [ArgVal 0, ArgVal 1],
        trace = [EvalArg 0, EvalArg 1,
                 Stderr (''format: unsupported type '' @ dquote @ ''ext4'' @ dquote)]\<rparr>)"
  by (simp add: FormatFn_def format_body_def format_done_def prim_defs)

end
